theory Spec2Isabelle
  imports Main "HOL-Library.Word"
begin

section \<open>Common data: handles, native return codes, panics, errors\<close>

text \<open>
  The driver talks to the Oracle client library through cgo. A native handle
  (\<^verbatim>\<open>*C.OCIEnv\<close>, \<^verbatim>\<open>*C.OCIError\<close>, \<^verbatim>\<open>*C.OCIBind\<close>, ...) is an opaque address; a Go
  pointer that may be \<^verbatim>\<open>nil\<close> is an \<open>option\<close>. Go objects that are shared through
  pointers (\<^verbatim>\<open>*Env\<close>, \<^verbatim>\<open>*Srv\<close>, \<^verbatim>\<open>*Con\<close>, \<^verbatim>\<open>*Stmt\<close>, \<^verbatim>\<open>*StmtCfg\<close>) are addressed by a
  reference into a store.
\<close>

type_synonym handle = nat
type_synonym ref = nat

text \<open>
  The native calls return an \<^verbatim>\<open>sword\<close>; the source only ever compares it with
  \<^verbatim>\<open>C.OCI_ERROR\<close> and \<^verbatim>\<open>C.OCI_INVALID_HANDLE\<close>. Every other code is \<open>OCI_OTHER\<close>.
\<close>

datatype rcode = OCI_SUCCESS | OCI_ERROR | OCI_INVALID_HANDLE | OCI_OTHER int

text \<open>A panic carries a value; the run-time panics of Go are values of their own.\<close>

datatype panic_value = NilDeref | IndexOutOfRange | PanicVal string

datatype 'a outcome = Returns 'a | Panics panic_value

text \<open>The errors \<^verbatim>\<open>fmt.Sscanf\<close> reports (package fmt, scan.go).\<close>

datatype scan_error =
    ScanEOF
  | UnexpectedEOF
  | UnexpectedNewline
  | InputDoesNotMatchFormat
  | ExpectedSpace
  | NewlineInInput

datatype error =
    Er string
  | ErrE error
  | ErrR panic_value
  | ErrRecover panic_value
  | MultiErr "error list"
  | ScanErr scan_error

text \<open>Modelled from the spec: the error constructors \<^verbatim>\<open>er\<close>, \<^verbatim>\<open>errE\<close>, \<^verbatim>\<open>errR\<close> and
  \<^verbatim>\<open>errRecover\<close> are called by the source and defined elsewhere in the package.
  \<^verbatim>\<open>er\<close> makes a client error from a text, \<^verbatim>\<open>errE\<close> passes an error on to the caller,
  \<^verbatim>\<open>errR\<close> and \<^verbatim>\<open>errRecover\<close> turn a recovered panic value into an error. Each is a
  free constructor here, so a result shows which of them built it.\<close>

definition er :: "string \<Rightarrow> error" where
  "er msg = Er msg"

definition errE :: "error \<Rightarrow> error" where
  "errE e = ErrE e"

definition errR :: "panic_value \<Rightarrow> error" where
  "errR v = ErrR v"

definition errRecover :: "panic_value \<Rightarrow> error" where
  "errRecover v = ErrRecover v"

text \<open>Modelled from the spec: \<^verbatim>\<open>newMultiErrL\<close>, the error aggregator, is defined
  elsewhere in the package. It merges zero or more child errors into a single composite
  error, and is nil when there is no child error.\<close>

definition newMultiErrL :: "error list \<Rightarrow> error option" where
  "newMultiErrL errs = (if errs = [] then None else Some (MultiErr errs))"

section \<open>Binders (bndBin.go, bndFloat64.go, bndUint64.go)\<close>

text \<open>
  A binder keeps a pointer to its statement. Of the statement the binders read the
  native statement handle \<^verbatim>\<open>stmt.ocistmt\<close> and, through \<^verbatim>\<open>stmt.ses.srv.env\<close>, the
  environment's native error handle; \<open>Stmt\<close> holds the two. The statements live in a
  store \<open>ref \<Rightarrow> Stmt\<close>, and the \<^verbatim>\<open>*Stmt\<close> of the source is a \<open>ref option\<close>.
\<close>

record Stmt =
  ocistmt :: "handle option"
  stmt_ocierr :: "handle option"

type_synonym OCINumber = "8 word list"

record bndBin =
  bin_stmt :: "ref option"
  bin_ocibnd :: "handle option"

record bndNumber =
  stmt :: "ref option"
  ocibnd :: "handle option"
  ociNumber :: OCINumber

type_synonym bndFloat32 = bndNumber
type_synonym bndFloat64 = bndNumber
type_synonym bndUint64 = bndNumber

text \<open>\<^verbatim>\<open>putBnd\<close> takes the binder as a value of the interface \<^verbatim>\<open>bnd\<close>.\<close>

datatype bnd_iface = BBin bndBin | BNumber bndNumber

text \<open>The pool indices \<^verbatim>\<open>bndIdxBin\<close>, ... are constants of the package.\<close>

datatype bndIdx = bndIdxBin | bndIdxFloat32 | bndIdxFloat64 | bndIdxUint64

text \<open>The native datatype tags and the sign flag of \<^verbatim>\<open>oci.h\<close>, kept symbolic.\<close>

datatype dty = SQLT_LBI | SQLT_VNU

datatype sign_flag = OCI_NUMBER_UNSIGNED | OCI_NUMBER_SIGNED

text \<open>
  What \<^verbatim>\<open>valuep\<close> points to when the value is registered: the bytes of the slice (from
  its first element on), or the binder's native number buffer.
\<close>

datatype valuep = PtrBytes "8 word list" | PtrNumber OCINumber

text \<open>
  A floating-point value is only handed to the native conversion, by address; it is
  modelled by its bit pattern.
\<close>

datatype real_bits = Float32Bits "32 word" | Float64Bits "64 word"

text \<open>
  The native client, as far as the binders call it. Each call is a function of its
  arguments: the return code, and what the call writes through its out-parameter.
  \<^verbatim>\<open>stmt.putBnd\<close>, the statement's hand-back of a binder to its pool, is defined
  elsewhere in the package: it returns, or it panics.
  \<^verbatim>\<open>OCIBINDBYPOS\<close> is a macro of \<^verbatim>\<open>version.h\<close> over the client's bind-by-position call
  (\<^verbatim>\<open>bndFloat32\<close> calls \<^verbatim>\<open>OCIBindByPos2\<close> itself); its arguments that the source fixes
  to \<^verbatim>\<open>nil\<close>, \<^verbatim>\<open>0\<close> and \<^verbatim>\<open>OCI_DEFAULT\<close> are left out.
\<close>

record bnd_native =
  OCINumberFromReal :: "handle option \<Rightarrow> real_bits \<Rightarrow> nat \<Rightarrow> rcode \<times> OCINumber"
  OCINumberFromInt :: "handle option \<Rightarrow> 64 word \<Rightarrow> nat \<Rightarrow> sign_flag \<Rightarrow> rcode \<times> OCINumber"
  OCIBindByPos :: "handle option \<Rightarrow> handle option \<Rightarrow> 32 word \<Rightarrow> valuep \<Rightarrow> nat \<Rightarrow> dty
                    \<Rightarrow> rcode \<times> handle option"
  bnd_OCIErrorGet :: "handle option \<Rightarrow> string"
  putBnd :: "ref option \<Rightarrow> bndIdx \<Rightarrow> bnd_iface \<Rightarrow> unit outcome"

text \<open>The calls a binder makes, in order.\<close>

datatype bnd_event =
    EvNumberFromReal "handle option" real_bits nat
  | EvNumberFromInt "handle option" "64 word" nat sign_flag
  | EvBindByPos "handle option" "handle option" "32 word" valuep nat dty
  | EvBndErrorGet "handle option"
  | EvPutBnd "ref option" bndIdx bnd_iface

text \<open>\<^verbatim>\<open>C.sizeof_OCINumber\<close>: an \<^verbatim>\<open>OCINumber\<close> is 22 bytes.\<close>

definition sizeof_OCINumber :: nat where
  "sizeof_OCINumber = 22"

text \<open>
  \<^verbatim>\<open>env.ociError()\<close> as the binders reach it: it reads the text of the last native
  error through the error handle and returns \<^verbatim>\<open>er(text)\<close>.
\<close>

definition bnd_ociError :: "bnd_native \<Rightarrow> handle option \<Rightarrow> error \<times> bnd_event list" where
  "bnd_ociError N errhp = (er (bnd_OCIErrorGet N errhp), [EvBndErrorGet errhp])"

text \<open>\<^verbatim>\<open>C.ub4(position)\<close>: the conversion of a Go \<^verbatim>\<open>int\<close> to an unsigned 32-bit integer
  keeps the low 32 bits.\<close>

definition ub4 :: "int \<Rightarrow> 32 word" where
  "ub4 i = word_of_int i"

text \<open>bndBin.go, lines 19 to 40. Go evaluates the arguments of the call from left to
  right: \<^verbatim>\<open>bnd.stmt.ocistmt\<close> panics on a nil statement, then \<^verbatim>\<open>&value[0]\<close> panics on
  an empty slice.\<close>

definition bndBin_bind ::
  "bnd_native \<Rightarrow> (ref \<Rightarrow> Stmt) \<Rightarrow> bndBin \<Rightarrow> 8 word list \<Rightarrow> int \<Rightarrow> ref option
    \<Rightarrow> error option outcome \<times> bndBin \<times> bnd_event list" where
  "bndBin_bind N S bnd val position st =
    (let bnd1 = bnd\<lparr>bin_stmt := st\<rparr> in
     case bin_stmt bnd1 of
       None \<Rightarrow> (Panics NilDeref, bnd1, [])
     | Some s \<Rightarrow>
        (case val of
           [] \<Rightarrow> (Panics IndexOutOfRange, bnd1, [])
         | _ # _ \<Rightarrow>
            (let errhp = stmt_ocierr (S s);
                 pos = ub4 position;
                 (r, bh) = OCIBindByPos N (ocistmt (S s)) errhp pos (PtrBytes val)
                             (length val) SQLT_LBI;
                 bnd2 = bnd1\<lparr>bin_ocibnd := bh\<rparr>;
                 ev = [EvBindByPos (ocistmt (S s)) errhp pos (PtrBytes val) (length val) SQLT_LBI]
             in if r = OCI_ERROR
                then (let (e, ev2) = bnd_ociError N errhp in (Returns (Some e), bnd2, ev @ ev2))
                else (Returns None, bnd2, ev))))"

definition bndBin_setPtr :: "bndBin \<Rightarrow> error option" where
  "bndBin_setPtr bnd = None"

text \<open>bndBin.go, lines 46 to 56. The deferred function recovers a panic of the
  hand-back and makes it the returned error.\<close>

definition bndBin_close :: "bnd_native \<Rightarrow> bndBin \<Rightarrow> error option \<times> bndBin \<times> bnd_event list" where
  "bndBin_close N bnd =
    (let st = bin_stmt bnd;
         bnd1 = bnd\<lparr>bin_stmt := None\<rparr>;
         ev = [EvPutBnd st bndIdxBin (BBin bnd1)]
     in case putBnd N st bndIdxBin (BBin bnd1) of
          Panics v \<Rightarrow> (Some (errR v), bnd1, ev)
        | Returns u \<Rightarrow> (None, bnd1, ev))"

text \<open>The second native call of the three numeric binders: it registers the binder's
  number buffer with the tag \<^verbatim>\<open>SQLT_VNU\<close> (the lines from \<^verbatim>\<open>r = C.OCIBINDBYPOS(\<close> to
  \<^verbatim>\<open>return nil\<close>, the same in the three files).\<close>

definition bindNumber ::
  "bnd_native \<Rightarrow> Stmt \<Rightarrow> bndNumber \<Rightarrow> int \<Rightarrow> bnd_event list
    \<Rightarrow> error option outcome \<times> bndNumber \<times> bnd_event list" where
  "bindNumber N s bnd position ev0 =
    (let errhp = stmt_ocierr s;
         pos = ub4 position;
         (r, bh) = OCIBindByPos N (ocistmt s) errhp pos (PtrNumber (ociNumber bnd))
                     sizeof_OCINumber SQLT_VNU;
         bnd2 = bnd\<lparr>ocibnd := bh\<rparr>;
         ev = ev0 @ [EvBindByPos (ocistmt s) errhp pos (PtrNumber (ociNumber bnd))
                       sizeof_OCINumber SQLT_VNU]
     in if r = OCI_ERROR
        then (let (e, ev2) = bnd_ociError N errhp in (Returns (Some e), bnd2, ev @ ev2))
        else (Returns None, bnd2, ev))"

text \<open>bndBin.go (second file of the listing), \<^verbatim>\<open>bndFloat32.bind\<close>: width 4.\<close>

definition bndFloat32_bind ::
  "bnd_native \<Rightarrow> (ref \<Rightarrow> Stmt) \<Rightarrow> bndFloat32 \<Rightarrow> 32 word \<Rightarrow> int \<Rightarrow> ref option
    \<Rightarrow> error option outcome \<times> bndFloat32 \<times> bnd_event list" where
  "bndFloat32_bind N S bnd val position st =
    (let bnd1 = bnd\<lparr>stmt := st\<rparr> in
     case stmt bnd1 of
       None \<Rightarrow> (Panics NilDeref, bnd1, [])
     | Some s \<Rightarrow>
        (let errhp = stmt_ocierr (S s);
             (r, num) = OCINumberFromReal N errhp (Float32Bits val) 4;
             bnd2 = bnd1\<lparr>ociNumber := num\<rparr>;
             ev = [EvNumberFromReal errhp (Float32Bits val) 4]
         in if r = OCI_ERROR
            then (let (e, ev2) = bnd_ociError N errhp in (Returns (Some e), bnd2, ev @ ev2))
            else bindNumber N (S s) bnd2 position ev))"

text \<open>bndFloat64.go, lines 22 to 50: width 8.\<close>

definition bndFloat64_bind ::
  "bnd_native \<Rightarrow> (ref \<Rightarrow> Stmt) \<Rightarrow> bndFloat64 \<Rightarrow> 64 word \<Rightarrow> int \<Rightarrow> ref option
    \<Rightarrow> error option outcome \<times> bndFloat64 \<times> bnd_event list" where
  "bndFloat64_bind N S bnd val position st =
    (let bnd1 = bnd\<lparr>stmt := st\<rparr> in
     case stmt bnd1 of
       None \<Rightarrow> (Panics NilDeref, bnd1, [])
     | Some s \<Rightarrow>
        (let errhp = stmt_ocierr (S s);
             (r, num) = OCINumberFromReal N errhp (Float64Bits val) 8;
             bnd2 = bnd1\<lparr>ociNumber := num\<rparr>;
             ev = [EvNumberFromReal errhp (Float64Bits val) 8]
         in if r = OCI_ERROR
            then (let (e, ev2) = bnd_ociError N errhp in (Returns (Some e), bnd2, ev @ ev2))
            else bindNumber N (S s) bnd2 position ev))"

text \<open>bndUint64.go, lines 22 to 51: width 8, flagged unsigned.\<close>

definition bndUint64_bind ::
  "bnd_native \<Rightarrow> (ref \<Rightarrow> Stmt) \<Rightarrow> bndUint64 \<Rightarrow> 64 word \<Rightarrow> int \<Rightarrow> ref option
    \<Rightarrow> error option outcome \<times> bndUint64 \<times> bnd_event list" where
  "bndUint64_bind N S bnd val position st =
    (let bnd1 = bnd\<lparr>stmt := st\<rparr> in
     case stmt bnd1 of
       None \<Rightarrow> (Panics NilDeref, bnd1, [])
     | Some s \<Rightarrow>
        (let errhp = stmt_ocierr (S s);
             (r, num) = OCINumberFromInt N errhp val 8 OCI_NUMBER_UNSIGNED;
             bnd2 = bnd1\<lparr>ociNumber := num\<rparr>;
             ev = [EvNumberFromInt errhp val 8 OCI_NUMBER_UNSIGNED]
         in if r = OCI_ERROR
            then (let (e, ev2) = bnd_ociError N errhp in (Returns (Some e), bnd2, ev @ ev2))
            else bindNumber N (S s) bnd2 position ev))"

definition bndNumber_setPtr :: "bndNumber \<Rightarrow> error option" where
  "bndNumber_setPtr bnd = None"

text \<open>The \<^verbatim>\<open>close\<close> of the numeric binders: bndFloat64.go lines 56 to 68, bndUint64.go
  lines 57 to 69 (both with \<^verbatim>\<open>errR\<close>), and \<^verbatim>\<open>bndFloat32.close\<close> (with \<^verbatim>\<open>errRecover\<close>).
  They differ in the pool index and in the function that wraps the recovered value.\<close>

definition bndNumber_close ::
  "bndIdx \<Rightarrow> (panic_value \<Rightarrow> error) \<Rightarrow> bnd_native \<Rightarrow> bndNumber
    \<Rightarrow> error option \<times> bndNumber \<times> bnd_event list" where
  "bndNumber_close idx wrap N bnd =
    (let st = stmt bnd;
         bnd1 = bnd\<lparr>stmt := None\<rparr>;
         bnd2 = bnd1\<lparr>ocibnd := None\<rparr>;
         ev = [EvPutBnd st idx (BNumber bnd2)]
     in case putBnd N st idx (BNumber bnd2) of
          Panics v \<Rightarrow> (Some (wrap v), bnd2, ev)
        | Returns u \<Rightarrow> (None, bnd2, ev))"

definition bndFloat32_close :: "bnd_native \<Rightarrow> bndFloat32 \<Rightarrow> error option \<times> bndFloat32 \<times> bnd_event list" where
  "bndFloat32_close = bndNumber_close bndIdxFloat32 errRecover"

definition bndFloat64_close :: "bnd_native \<Rightarrow> bndFloat64 \<Rightarrow> error option \<times> bndFloat64 \<times> bnd_event list" where
  "bndFloat64_close = bndNumber_close bndIdxFloat64 errR"

definition bndUint64_close :: "bnd_native \<Rightarrow> bndUint64 \<Rightarrow> error option \<times> bndUint64 \<times> bnd_event list" where
  "bndUint64_close = bndNumber_close bndIdxUint64 errR"

text \<open>The lines of a \<^verbatim>\<open>bind\<close> method from the registration on, from \<^verbatim>\<open>r = C.OCIBINDBYPOS(\<close>
  to \<^verbatim>\<open>return nil\<close>, as the result and the calls: the value is registered at the position
  converted to 32 bits; the result is the native error when the call returns
  \<^verbatim>\<open>OCI_ERROR\<close>, and nil on every other return code. \<open>before\<close> are the calls made before
  the registration.\<close>

definition registration ::
  "bnd_native \<Rightarrow> Stmt \<Rightarrow> int \<Rightarrow> valuep \<Rightarrow> nat \<Rightarrow> dty \<Rightarrow> bnd_event list
    \<Rightarrow> error option outcome \<times> bnd_event list" where
  "registration N s position vp sz tag before =
    (let reg = EvBindByPos (ocistmt s) (stmt_ocierr s) (ub4 position) vp sz tag in
     if fst (OCIBindByPos N (ocistmt s) (stmt_ocierr s) (ub4 position) vp sz tag) = OCI_ERROR
     then (Returns (Some (er (bnd_OCIErrorGet N (stmt_ocierr s)))),
           before @ [reg, EvBndErrorGet (stmt_ocierr s)])
     else (Returns None, before @ [reg]))"

text \<open>The lines after a conversion that has returned \<^verbatim>\<open>OCI_ERROR\<close>: the native error
  is read and returned, and nothing is registered.\<close>

definition conversion_failure ::
  "bnd_native \<Rightarrow> Stmt \<Rightarrow> bnd_event \<Rightarrow> error option outcome \<times> bnd_event list" where
  "conversion_failure N s conv =
    (Returns (Some (er (bnd_OCIErrorGet N (stmt_ocierr s)))), [conv, EvBndErrorGet (stmt_ocierr s)])"

text \<open>Modelled from the spec: the binder registers the value at the given position,
  and returns a client error wrapping the native error text on any native-call failure
  and nil otherwise. The return codes of a failed native call are \<^verbatim>\<open>OCI_ERROR\<close> and
  \<^verbatim>\<open>OCI_INVALID_HANDLE\<close>, the two that env.go handles as failures (lines 341, 353 and
  355). \<open>claimed_result\<close> is the result the specification gives for a return code.\<close>

definition native_failure :: "rcode \<Rightarrow> bool" where
  "native_failure r = (r = OCI_ERROR \<or> r = OCI_INVALID_HANDLE)"

definition claimed_result :: "bnd_native \<Rightarrow> Stmt \<Rightarrow> rcode \<Rightarrow> error option outcome" where
  "claimed_result N s r =
    (if native_failure r then Returns (Some (er (bnd_OCIErrorGet N (stmt_ocierr s))))
     else Returns None)"

text \<open>The returned value and the native calls of a run, without the binder's fields.\<close>

definition result_and_calls :: "'r \<times> 'b \<times> bnd_event list \<Rightarrow> 'r \<times> bnd_event list" where
  "result_and_calls x = (fst x, snd (snd x))"

subsection \<open>A concrete client for the binders\<close>

text \<open>A native client in which the conversion of a 4-byte real fails, the registration
  at position 2 fails, and the hand-back to the pool of 64-bit float binders panics.\<close>

definition demo_stmts :: "ref \<Rightarrow> Stmt" where
  "demo_stmts r = \<lparr>ocistmt = Some (100 + r), stmt_ocierr = Some 7\<rparr>"

definition demo_bnd_native :: bnd_native where
  "demo_bnd_native =
    \<lparr>OCINumberFromReal = (\<lambda>errhp v w. (if w = 4 then OCI_ERROR else OCI_SUCCESS, [193, 2])),
     OCINumberFromInt = (\<lambda>errhp v w f. (OCI_SUCCESS, [193, 3])),
     OCIBindByPos = (\<lambda>stmtp errhp pos vp sz tag. (if pos = 2 then OCI_ERROR else OCI_SUCCESS, Some 55)),
     bnd_OCIErrorGet = (\<lambda>errhp. ''ORA-01036''),
     putBnd = (\<lambda>st idx b. if idx = bndIdxFloat64 then Panics (PanicVal ''pool'') else Returns ())\<rparr>"

text \<open>A native client that reports an invalid handle for every conversion and every
  registration.\<close>

definition invalid_handle_bnd_native :: bnd_native where
  "invalid_handle_bnd_native =
    \<lparr>OCINumberFromReal = (\<lambda>errhp v w. (OCI_INVALID_HANDLE, [])),
     OCINumberFromInt = (\<lambda>errhp v w f. (OCI_INVALID_HANDLE, [])),
     OCIBindByPos = (\<lambda>stmtp errhp pos vp sz tag. (OCI_INVALID_HANDLE, None)),
     bnd_OCIErrorGet = (\<lambda>errhp. ''ORA-01036''),
     putBnd = (\<lambda>st idx b. Returns ())\<rparr>"

definition demo_bndBin :: bndBin where
  "demo_bndBin = \<lparr>bin_stmt = Some 3, bin_ocibnd = Some 55\<rparr>"

definition demo_bndNumber :: bndNumber where
  "demo_bndNumber = \<lparr>stmt = Some 3, ocibnd = Some 55, ociNumber = [193, 2]\<rparr>"

section \<open>Go strings and the library functions \<^verbatim>\<open>Env.OpenCon\<close> parses with\<close>

text \<open>
  A Go string is taken as the sequence of its runes (code points); the strings are
  assumed to be valid UTF-8, so that a byte index after ASCII runes is a rune index.
  The functions below follow the Go standard library: \<^verbatim>\<open>strings.TrimSpace\<close>,
  \<^verbatim>\<open>strings.HasPrefix\<close>, \<^verbatim>\<open>strings.Replace\<close> with count 1, and \<^verbatim>\<open>fmt.Sscanf\<close>
  (fmt/scan.go) for the one format the source passes.
\<close>

type_synonym rune = nat
type_synonym gostring = "rune list"

definition runes :: "string \<Rightarrow> gostring" where
  "runes s = map of_char s"

text \<open>\<^verbatim>\<open>unicode.IsSpace\<close>: the runes with the Unicode property White_Space.\<close>

definition unicode_IsSpace :: "rune \<Rightarrow> bool" where
  "unicode_IsSpace r =
    ((9 \<le> r \<and> r \<le> 13) \<or> r = 32 \<or> r = 133 \<or> r = 160 \<or> r = 5760
     \<or> (8192 \<le> r \<and> r \<le> 8202) \<or> r = 8232 \<or> r = 8233 \<or> r = 8239 \<or> r = 8287 \<or> r = 12288)"

text \<open>\<^verbatim>\<open>isSpace\<close> of package fmt: a table of its own, with the same ranges.\<close>

definition isSpace :: "rune \<Rightarrow> bool" where
  "isSpace r =
    ((9 \<le> r \<and> r \<le> 13) \<or> r = 32 \<or> r = 133 \<or> r = 160 \<or> r = 5760
     \<or> (8192 \<le> r \<and> r \<le> 8202) \<or> r = 8232 \<or> r = 8233 \<or> r = 8239 \<or> r = 8287 \<or> r = 12288)"

definition notSpace :: "rune \<Rightarrow> bool" where
  "notSpace r = (\<not> isSpace r)"

definition TrimSpace :: "gostring \<Rightarrow> gostring" where
  "TrimSpace s = rev (dropWhile unicode_IsSpace (rev (dropWhile unicode_IsSpace s)))"

definition HasPrefix :: "gostring \<Rightarrow> gostring \<Rightarrow> bool" where
  "HasPrefix s pre = (length pre \<le> length s \<and> take (length pre) s = pre)"

text \<open>\<^verbatim>\<open>strings.Replace(s, old, new, 1)\<close>: the first occurrence of \<open>old\<close> is replaced; an
  empty \<open>old\<close> matches at the beginning of the string.\<close>

fun Replace1 :: "gostring \<Rightarrow> gostring \<Rightarrow> gostring \<Rightarrow> gostring" where
  "Replace1 old new [] = (if old = [] then new else [])"
| "Replace1 old new (x # xs) =
    (if HasPrefix (x # xs) old then new @ drop (length old) (x # xs)
     else x # Replace1 old new xs)"

text \<open>
  The scanner of \<^verbatim>\<open>fmt.Sscanf\<close> reads runes from the string; its state is the input left
  to read, and \<^verbatim>\<open>UnreadRune\<close> puts the last rune back. \<^verbatim>\<open>Sscanf\<close> scans with
  \<^verbatim>\<open>nlIsSpace = false\<close>. An error of the scanner ends the scan.
\<close>

definition bindE :: "'e + 'a \<Rightarrow> ('a \<Rightarrow> 'e + 'b) \<Rightarrow> 'e + 'b" where
  "bindE x f = (case x of Inl e \<Rightarrow> Inl e | Inr a \<Rightarrow> f a)"

text \<open>\<^verbatim>\<open>ss.SkipSpace\<close>: a carriage return before a newline is passed over, a newline is
  an error, any other space is skipped.\<close>

fun SkipSpace :: "gostring \<Rightarrow> scan_error + gostring" where
  "SkipSpace [] = Inr []"
| "SkipSpace (r # rs) =
    (if r = 13 \<and> (case rs of [] \<Rightarrow> False | x # xs \<Rightarrow> x = 10) then SkipSpace rs
     else if r = 10 then Inl UnexpectedNewline
     else if \<not> isSpace r then Inr (r # rs)
     else SkipSpace rs)"

text \<open>\<^verbatim>\<open>ss.token(true, notSpace)\<close>: skips space, then reads while the rune is no space.
  The result is the token and the input left.\<close>

definition token :: "gostring \<Rightarrow> scan_error + (gostring \<times> gostring)" where
  "token inp = bindE (SkipSpace inp) (\<lambda>i. Inr (takeWhile notSpace i, dropWhile notSpace i))"

text \<open>\<^verbatim>\<open>ss.convertString\<close> for the verb \<^verbatim>\<open>%s\<close>: \<^verbatim>\<open>SkipSpace\<close>, \<^verbatim>\<open>notEOF\<close> (which panics
  with \<^verbatim>\<open>io.EOF\<close>, made the error of the scan by \<^verbatim>\<open>errorHandler\<close>), then the next word.\<close>

definition convertString :: "gostring \<Rightarrow> scan_error + (gostring \<times> gostring)" where
  "convertString inp =
    bindE (SkipSpace inp) (\<lambda>i. if i = [] then Inl ScanEOF else token i)"

text \<open>\<^verbatim>\<open>doScanf\<close> at a verb other than \<^verbatim>\<open>%c\<close>: \<^verbatim>\<open>SkipSpace\<close>, then \<^verbatim>\<open>scanOne\<close>.\<close>

definition scan_verb_s :: "gostring \<Rightarrow> scan_error + (gostring \<times> gostring)" where
  "scan_verb_s inp = bindE (SkipSpace inp) convertString"

text \<open>\<^verbatim>\<open>ss.advance\<close> at a run of spaces of the format that holds no newline: the input
  is at its end, or its next rune is a space other than a newline; the spaces up to a
  newline are consumed.\<close>

definition advance_space :: "gostring \<Rightarrow> scan_error + gostring" where
  "advance_space inp =
    (case inp of
       [] \<Rightarrow> Inr []
     | r # rs \<Rightarrow>
        if \<not> isSpace r then Inl ExpectedSpace
        else if r = 10 then Inl NewlineInInput
        else Inr (dropWhile (\<lambda>c. isSpace c \<and> c \<noteq> 10) rs))"

text \<open>\<^verbatim>\<open>ss.advance\<close> at a literal of the format: \<^verbatim>\<open>mustReadRune\<close> fails at the end of
  the input; a different rune makes \<^verbatim>\<open>advance\<close> return \<^verbatim>\<open>-1\<close>, which \<^verbatim>\<open>doScanf\<close> reports
  as a mismatch.\<close>

definition advance_literal :: "rune \<Rightarrow> gostring \<Rightarrow> scan_error + gostring" where
  "advance_literal c inp =
    (case inp of
       [] \<Rightarrow> Inl UnexpectedEOF
     | r # rs \<Rightarrow> if r = c then Inr rs else Inl InputDoesNotMatchFormat)"

text \<open>\<^verbatim>\<open>fmt.Sscanf(str, "%s / %s @ %s", &username, &password, &dblink)\<close>. The slash is
  the rune 47 and the at sign the rune 64. Input after the third word is not read.\<close>

definition Sscanf_conn :: "gostring \<Rightarrow> scan_error + (gostring \<times> gostring \<times> gostring)" where
  "Sscanf_conn str =
    bindE (scan_verb_s str) (\<lambda>(username, i1).
    bindE (advance_space i1) (\<lambda>i2.
    bindE (advance_literal 47 i2) (\<lambda>i3.
    bindE (advance_space i3) (\<lambda>i4.
    bindE (scan_verb_s i4) (\<lambda>(password, i5).
    bindE (advance_space i5) (\<lambda>i6.
    bindE (advance_literal 64 i6) (\<lambda>i7.
    bindE (advance_space i7) (\<lambda>i8.
    bindE (scan_verb_s i8) (\<lambda>(dblink, i9).
    Inr (username, password, dblink))))))))))"

text \<open>The parsing of the connection string in \<^verbatim>\<open>Env.OpenCon\<close> (lines 198 to 211): the
  user name, the password and the link, or the error that \<^verbatim>\<open>OpenCon\<close> returns.\<close>

definition parseConStr :: "gostring \<Rightarrow> error + (gostring \<times> gostring \<times> gostring)" where
  "parseConStr str0 =
    (let str = TrimSpace str0 in
     if HasPrefix str (runes ''/@'') then Inr ([], [], drop 2 str)
     else (let s1 = Replace1 (runes ''/'') (runes '' / '') str;
               s2 = Replace1 (runes ''@'') (runes '' @ '') s1
           in case Sscanf_conn s2 of
                Inl e \<Rightarrow> Inl (errE (ScanErr e))
              | Inr r \<Rightarrow> Inr r))"

section \<open>Environments (env.go)\<close>

text \<open>
  The configurations. \<^verbatim>\<open>EnvCfg\<close> is declared in env.go; \<^verbatim>\<open>SrvCfg\<close> and \<^verbatim>\<open>SesCfg\<close> are
  declared elsewhere in the package and carry the fields env.go reads and writes.
  A \<^verbatim>\<open>*StmtCfg\<close> is a reference into a store of statement configurations.
\<close>

record EnvCfg =
  EnvCfg_StmtCfg :: "ref option"

record SrvCfg =
  Dblink :: gostring
  SrvCfg_StmtCfg :: "ref option"

record SesCfg =
  Username :: gostring
  Password :: gostring
  SesCfg_StmtCfg :: "ref option"

text \<open>A \<^verbatim>\<open>*list.Element\<close> is an address of its own; a \<^verbatim>\<open>list.List\<close> is the sequence of
  its elements, each with its value.\<close>

type_synonym elem = nat
type_synonym golist = "(elem \<times> ref) list"

text \<open>The struct \<^verbatim>\<open>Env\<close> (lines 61 to 72), without its lock and its text buffer. An
  environment that has been opened holds its two lists.\<close>

record Env =
  env_id :: nat
  env_cfg :: EnvCfg
  ocienv :: "handle option"
  ocierr :: "handle option"
  openSrvs :: golist
  openCons :: golist
  env_elem :: "elem option"

text \<open>\<^verbatim>\<open>Srv\<close> and \<^verbatim>\<open>Con\<close> are declared elsewhere in the package; these are the fields
  env.go assigns.\<close>

record Srv =
  srv_id :: nat
  srv_cfg :: SrvCfg
  srv_env :: "ref option"
  ocisrv :: "handle option"
  ocisvcctx :: "handle option"
  srv_elem :: "elem option"
  dbIsUTF8 :: bool

record Con =
  con_id :: nat
  con_env :: "ref option"
  con_srv :: "ref option"
  con_ses :: "ref option"
  con_elem :: "elem option"

datatype htype = OCI_HTYPE_ENV | OCI_HTYPE_SERVER | OCI_HTYPE_SVCCTX

datatype attrtype = OCI_ATTR_SERVER

text \<open>A result set, as far as \<^verbatim>\<open>OpenCon\<close> looks at it: what \<^verbatim>\<open>rset.Next()\<close> returns, and
  the row \<^verbatim>\<open>rset.Row\<close> it leaves. A value of the row is a string or something else.\<close>

datatype go_value = GoString gostring | GoOther

record Rset =
  Rset_Next :: bool
  Rset_Row :: "go_value list"

text \<open>
  What an environment calls: the native client, and the methods of the package that are
  declared in other files (\<^verbatim>\<open>Con.Close\<close>, \<^verbatim>\<open>Srv.Close\<close>, \<^verbatim>\<open>Srv.OpenSes\<close>,
  \<^verbatim>\<open>Ses.PrepAndQry\<close>, \<^verbatim>\<open>NewSrvCfg\<close>, \<^verbatim>\<open>NewSesCfg\<close>). The result of a call is a function
  of its arguments and of the number of calls made before it, so that the same call may
  answer differently at different times. The \<^verbatim>\<open>Close\<close> of a child returns an error or
  nil, or panics; what it does to the collection of its environment is said below, with
  the loops of \<^verbatim>\<open>Env.Close\<close>.
\<close>

record env_native =
  OCIHandleAlloc :: "nat \<Rightarrow> handle option \<Rightarrow> htype \<Rightarrow> rcode \<times> handle option"
  OCIHandleFree :: "nat \<Rightarrow> handle option \<Rightarrow> htype \<Rightarrow> rcode"
  OCIServerAttach :: "nat \<Rightarrow> handle option \<Rightarrow> handle option \<Rightarrow> gostring \<Rightarrow> rcode"
  OCIAttrSet :: "nat \<Rightarrow> handle option \<Rightarrow> htype \<Rightarrow> handle option \<Rightarrow> 32 word \<Rightarrow> attrtype
                  \<Rightarrow> handle option \<Rightarrow> rcode"
  OCIErrorGet :: "nat \<Rightarrow> handle option \<Rightarrow> string"
  Con_Close :: "nat \<Rightarrow> ref \<Rightarrow> error option outcome"
  Srv_Close :: "nat \<Rightarrow> ref \<Rightarrow> error option outcome"
  NewSrvCfg :: "nat \<Rightarrow> SrvCfg"
  NewSesCfg :: "nat \<Rightarrow> SesCfg"
  Srv_OpenSes :: "nat \<Rightarrow> ref \<Rightarrow> SesCfg \<Rightarrow> ref option \<times> error option"
  Ses_PrepAndQry :: "nat \<Rightarrow> ref option \<Rightarrow> Rset option \<times> error option"

text \<open>The calls an environment makes, and the two operations on the lock of the
  character-set cache, in order.\<close>

datatype event =
    EvHandleAlloc "handle option" htype
  | EvHandleFree "handle option" htype
  | EvServerAttach "handle option" "handle option" gostring
  | EvAttrSet "handle option" htype "handle option" "32 word" attrtype "handle option"
  | EvErrorGet "handle option"
  | EvConClose ref
  | EvSrvClose ref
  | EvOpenSes ref SesCfg
  | EvPrepAndQry "ref option"
  | EvLock
  | EvUnlock

text \<open>
  The state of the process: the environments, servers and connections by address, the
  driver's list of open environments and its pools, the counters of identifiers, the
  character-set cache \<^verbatim>\<open>conCharset\<close>, and the calls made so far.
\<close>

record world =
  envs :: "ref \<Rightarrow> Env"
  srvs :: "ref \<Rightarrow> Srv"
  cons :: "ref \<Rightarrow> Con"
  openEnvs :: golist
  envPool :: "ref list"
  srvPool :: "ref list"
  conPool :: "ref list"
  srvId :: nat
  conId :: nat
  nextElem :: elem
  nextRef :: ref
  conCharset :: "gostring \<rightharpoonup> gostring"
  trace :: "event list"

text \<open>\<^verbatim>\<open>List.PushBack\<close> makes a new element at the end of the list; \<^verbatim>\<open>List.Remove(e)\<close>
  takes the element out when it is an element of the list, and \<^verbatim>\<open>Remove(nil)\<close> panics
  on the nil element (container/list).\<close>

definition list_PushBack :: "elem \<Rightarrow> ref \<Rightarrow> golist \<Rightarrow> golist" where
  "list_PushBack e v l = l @ [(e, v)]"

definition list_Remove :: "elem \<Rightarrow> golist \<Rightarrow> golist" where
  "list_Remove e l = filter (\<lambda>x. fst x \<noteq> e) l"

definition list_Len :: "golist \<Rightarrow> int" where
  "list_Len l = int (length l)"

text \<open>Modelled from the spec: the pools are declared elsewhere in the package. Each pool
  holds previously used instances; checkout constructs a new instance only when the
  pool is empty. A pool is the list of the instances it holds, and a new instance is the
  zero value of its type at an address not yet in use.\<close>

definition zero_Srv :: Srv where
  "zero_Srv = \<lparr>srv_id = 0, srv_cfg = \<lparr>Dblink = [], SrvCfg_StmtCfg = None\<rparr>, srv_env = None,
     ocisrv = None, ocisvcctx = None, srv_elem = None, dbIsUTF8 = False\<rparr>"

definition zero_Con :: Con where
  "zero_Con = \<lparr>con_id = 0, con_env = None, con_srv = None, con_ses = None, con_elem = None\<rparr>"

definition srvPool_Get :: "world \<Rightarrow> ref \<times> world" where
  "srvPool_Get w =
    (case srvPool w of
       [] \<Rightarrow> (nextRef w, w\<lparr>srvs := (srvs w)(nextRef w := zero_Srv), nextRef := Suc (nextRef w)\<rparr>)
     | r # rs \<Rightarrow> (r, w\<lparr>srvPool := rs\<rparr>))"

definition conPool_Get :: "world \<Rightarrow> ref \<times> world" where
  "conPool_Get w =
    (case conPool w of
       [] \<Rightarrow> (nextRef w, w\<lparr>cons := (cons w)(nextRef w := zero_Con), nextRef := Suc (nextRef w)\<rparr>)
     | r # rs \<Rightarrow> (r, w\<lparr>conPool := rs\<rparr>))"

definition envPool_Put :: "ref \<Rightarrow> world \<Rightarrow> world" where
  "envPool_Put env w = w\<lparr>envPool := env # envPool w\<rparr>"

text \<open>Modelled from the spec: \<^verbatim>\<open>nextId\<close> of the driver's counters, declared elsewhere,
  gives the next identifier, which is never 0.\<close>

definition nextId :: "nat \<Rightarrow> nat" where
  "nextId n = Suc n"

text \<open>A call is recorded at the end of the trace; the time of a call is the number of
  calls made before it.\<close>

definition call :: "event \<Rightarrow> world \<Rightarrow> world" where
  "call ev w = w\<lparr>trace := trace w @ [ev]\<rparr>"

definition now :: "world \<Rightarrow> nat" where
  "now w = length (trace w)"

text \<open>The methods take the environment by its address, which is not nil. The lock
  \<^verbatim>\<open>env.mu\<close> and the logging are left out: the methods are run one at a time.\<close>

text \<open>\<^verbatim>\<open>Env.checkClosed\<close>, lines 297 to 302.\<close>

definition checkClosed :: "world \<Rightarrow> ref \<Rightarrow> error option" where
  "checkClosed w env = (if ocienv (envs w env) = None then Some (er ''Env is closed.'') else None)"

text \<open>\<^verbatim>\<open>Env.ociError\<close>, lines 383 to 393.\<close>

definition ociError :: "env_native \<Rightarrow> ref \<Rightarrow> world \<Rightarrow> error \<times> world" where
  "ociError N env w =
    (er (OCIErrorGet N (now w) (ocierr (envs w env))), call (EvErrorGet (ocierr (envs w env))) w)"

text \<open>\<^verbatim>\<open>Env.allocOciHandle\<close>, lines 332 to 345: the new handle, or an error.\<close>

definition allocOciHandle ::
  "env_native \<Rightarrow> ref \<Rightarrow> htype \<Rightarrow> world \<Rightarrow> (error + handle option) \<times> world" where
  "allocOciHandle N env ty w =
    (let (r, h) = OCIHandleAlloc N (now w) (ocienv (envs w env)) ty;
         w1 = call (EvHandleAlloc (ocienv (envs w env)) ty) w
     in if r = OCI_INVALID_HANDLE then (Inl (er ''Unable to allocate handle''), w1)
        else (Inr h, w1))"

text \<open>\<^verbatim>\<open>Env.freeOciHandle\<close>, lines 348 to 359.\<close>

definition freeOciHandle ::
  "env_native \<Rightarrow> ref \<Rightarrow> handle option \<Rightarrow> htype \<Rightarrow> world \<Rightarrow> error option \<times> world" where
  "freeOciHandle N env h ty w =
    (let r = OCIHandleFree N (now w) h ty;
         w1 = call (EvHandleFree h ty) w
     in if r = OCI_INVALID_HANDLE then (Some (er ''Unable to free handle''), w1)
        else if r = OCI_ERROR then (let (e, w2) = ociError N env w1 in (Some (errE e), w2))
        else (None, w1))"

text \<open>\<^verbatim>\<open>Env.setAttr\<close>, lines 362 to 380.\<close>

definition setAttr ::
  "env_native \<Rightarrow> ref \<Rightarrow> handle option \<Rightarrow> htype \<Rightarrow> handle option \<Rightarrow> 32 word \<Rightarrow> attrtype \<Rightarrow> world
    \<Rightarrow> error option \<times> world" where
  "setAttr N env target targetType attribute attributeSize attributeType w =
    (let errhp = ocierr (envs w env);
         r = OCIAttrSet N (now w) target targetType attribute attributeSize attributeType errhp;
         w1 = call (EvAttrSet target targetType attribute attributeSize attributeType errhp) w
     in if r = OCI_ERROR then (let (e, w2) = ociError N env w1 in (Some (errE e), w2))
        else (None, w1))"

subsection \<open>\<^verbatim>\<open>Env.Close\<close>, lines 75 to 122\<close>

text \<open>\<^verbatim>\<open>List.Front\<close> is the first element of the list, or nil. \<^verbatim>\<open>e.Next()\<close> is the
  element after \<open>e\<close> in the list \<open>e\<close> belongs to; it is nil at the end of the list, and it
  is nil when \<open>e\<close> is no longer an element of the list, since \<^verbatim>\<open>Remove\<close> clears the links of
  the element it takes out (container/list).\<close>

definition list_Front :: "golist \<Rightarrow> (elem \<times> ref) option" where
  "list_Front l = (case l of [] \<Rightarrow> None | x # xs \<Rightarrow> Some x)"

definition elem_Next :: "elem \<Rightarrow> golist \<Rightarrow> (elem \<times> ref) option" where
  "elem_Next e l = (case dropWhile (\<lambda>x. fst x \<noteq> e) l of [] \<Rightarrow> None | x # xs \<Rightarrow> list_Front xs)"

text \<open>The two loops of \<^verbatim>\<open>Close\<close> (lines 103 to 108, and 109 to 114) differ in the
  collection, in the method that closes a child, and in the call that is recorded.\<close>

datatype child_kind = KCon | KSrv

definition children :: "child_kind \<Rightarrow> Env \<Rightarrow> golist" where
  "children k E = (case k of KCon \<Rightarrow> openCons E | KSrv \<Rightarrow> openSrvs E)"

definition set_children :: "child_kind \<Rightarrow> golist \<Rightarrow> Env \<Rightarrow> Env" where
  "set_children k l E = (case k of KCon \<Rightarrow> E\<lparr>openCons := l\<rparr> | KSrv \<Rightarrow> E\<lparr>openSrvs := l\<rparr>)"

definition child_Close :: "env_native \<Rightarrow> child_kind \<Rightarrow> nat \<Rightarrow> ref \<Rightarrow> error option outcome" where
  "child_Close N k = (case k of KCon \<Rightarrow> Con_Close N | KSrv \<Rightarrow> Srv_Close N)"

definition child_event :: "child_kind \<Rightarrow> ref \<Rightarrow> event" where
  "child_event k = (case k of KCon \<Rightarrow> EvConClose | KSrv \<Rightarrow> EvSrvClose)"

text \<open>Modelled from the spec: \<^verbatim>\<open>Con.Close\<close> and \<^verbatim>\<open>Srv.Close\<close> are declared in other files.
  A child that is closed is removed from the collection of its environment: when its
  \<^verbatim>\<open>Close\<close> has returned, with an error or without, the element of the child is no longer
  in the list. Nothing else of the state is followed through the \<^verbatim>\<open>Close\<close> of a child.\<close>

definition child_removed :: "child_kind \<Rightarrow> ref \<Rightarrow> elem \<Rightarrow> world \<Rightarrow> world" where
  "child_removed k env el w =
    w\<lparr>envs := (envs w)(env := set_children k (list_Remove el (children k (envs w env))) (envs w env))\<rparr>"

text \<open>
  One loop of \<^verbatim>\<open>Close\<close>, from the element \<open>e\<close> on: \<^verbatim>\<open>for e := l.Front(); e != nil; e = e.Next()\<close>.
  The child of the element is closed; the result is assigned to the named result \<open>err\<close>
  and, when it is not nil, pushed on \<open>errs\<close> under \<^verbatim>\<open>errE\<close>; then \<^verbatim>\<open>e.Next()\<close> is read in the
  list as the \<^verbatim>\<open>Close\<close> of the child has left it. A panic of the child ends the loop: the
  first component is the value of the panic (what the panicking child did to the list is
  of no account, the deferred function empties the list).
\<close>

function closeEach ::
  "env_native \<Rightarrow> child_kind \<Rightarrow> ref \<Rightarrow> (elem \<times> ref) option \<Rightarrow> error option \<Rightarrow> error list \<Rightarrow> world
    \<Rightarrow> panic_value option \<times> error option \<times> error list \<times> world" where
  "closeEach N k env None err errs w = (None, err, errs, w)"
| "closeEach N k env (Some (el, c)) err errs w =
    (case child_Close N k (now w) c of
       Panics v \<Rightarrow> (Some v, err, errs, call (child_event k c) w)
     | Returns err' \<Rightarrow>
        (let w1 = child_removed k env el (call (child_event k c) w)
         in closeEach N k env (elem_Next el (children k (envs w1 env))) err'
              (case err' of None \<Rightarrow> errs | Some e \<Rightarrow> errs @ [errE e]) w1))"
  by pat_completeness auto

termination
proof (relation "measure (\<lambda>(N, k, env, e, err, errs, w). case e of None \<Rightarrow> 0 | Some x \<Rightarrow> Suc 0)")
  show "wf (measure (\<lambda>(N, k, env, e, err, errs, w). case e of None \<Rightarrow> 0 | Some x \<Rightarrow> Suc 0))"
    by simp
next
  fix N :: env_native and k env el c and w w1 :: world
  assume "w1 = child_removed k env el (call (child_event k c) w)"
  then have l: "children k (envs w1 env) = list_Remove el (children k (envs (call (child_event k c) w) env))"
    by (cases k) (simp_all add: child_removed_def children_def set_children_def)
  have d: "dropWhile (\<lambda>x. fst x \<noteq> el) (list_Remove el l) = []" for l :: golist
    unfolding list_Remove_def by (induction l) simp_all
  have "elem_Next el (children k (envs w1 env)) = None"
    unfolding elem_Next_def l d by simp
  then show "\<And>err errs err'. ((N, k, env, elem_Next el (children k (envs w1 env)), err',
               case err' of None \<Rightarrow> errs | Some e \<Rightarrow> errs @ [errE e], w1),
              N, k, env, Some (el, c), err, errs, w)
             \<in> measure (\<lambda>(N, k, env, e, err, errs, w). case e of None \<Rightarrow> 0 | Some x \<Rightarrow> Suc 0)"
    by simp
qed

text \<open>How the body of \<^verbatim>\<open>Close\<close> ends: by a \<^verbatim>\<open>return\<close>, which sets the named result, or by
  a panic, which leaves the named result as it was last assigned.\<close>

datatype body_end = Returned "error option" | Panicked panic_value "error option"

text \<open>The body after the check, lines 103 to 121: the connections, then the servers,
  then the native environment handle. \<open>errs\<close> is a list from the driver's pool of lists,
  which holds empty lists.\<close>

definition Close_body :: "env_native \<Rightarrow> ref \<Rightarrow> world \<Rightarrow> body_end \<times> error list \<times> world" where
  "Close_body N env w =
    (let (p1, err1, errs1, w1) =
           closeEach N KCon env (list_Front (openCons (envs w env))) None [] w
     in case p1 of
          Some v \<Rightarrow> (Panicked v err1, errs1, w1)
        | None \<Rightarrow>
           (let (p2, err2, errs2, w2) =
                  closeEach N KSrv env (list_Front (openSrvs (envs w1 env))) err1 errs1 w1
            in case p2 of
                 Some v \<Rightarrow> (Panicked v err2, errs2, w2)
               | None \<Rightarrow>
                  (let (err3, w3) = freeOciHandle N env (ocienv (envs w2 env)) OCI_HTYPE_ENV w2
                   in (Returned (map_option errE err3), errs2, w3))))"

text \<open>The deferred function, lines 84 to 102. It recovers a panic of the body and pushes
  it on \<open>errs\<close>; \<^verbatim>\<open>Remove\<close> panics when the environment has no element; then the
  bookkeeping; the named result is replaced when \<open>errs\<close> is not empty.\<close>

definition Close_deferred ::
  "ref \<Rightarrow> body_end \<Rightarrow> error list \<Rightarrow> world \<Rightarrow> error option outcome \<times> world" where
  "Close_deferred env b errs0 w =
    (let errs = (case b of Panicked v e \<Rightarrow> errs0 @ [errR v] | Returned e \<Rightarrow> errs0);
         err = (case b of Panicked v e \<Rightarrow> e | Returned e \<Rightarrow> e)
     in case env_elem (envs w env) of
          None \<Rightarrow> (Panics NilDeref, w)
        | Some el \<Rightarrow>
           (let w1 = w\<lparr>openEnvs := list_Remove el (openEnvs w)\<rparr>;
                w2 = w1\<lparr>envs := (envs w1)(env := (envs w1 env)
                        \<lparr>ocienv := None, ocierr := None, env_elem := None,
                         openSrvs := [], openCons := []\<rparr>)\<rparr>;
                w3 = envPool_Put env w2
            in (Returns (case newMultiErrL errs of
                           Some multiErr \<Rightarrow> Some (errE multiErr)
                         | None \<Rightarrow> err), w3)))"

definition Env_Close :: "env_native \<Rightarrow> ref \<Rightarrow> world \<Rightarrow> error option outcome \<times> world" where
  "Env_Close N env w =
    (case checkClosed w env of
       Some e \<Rightarrow> (Returns (Some (errE e)), w)
     | None \<Rightarrow> (let (b, errs, w1) = Close_body N env w in Close_deferred env b errs w1))"

subsection \<open>\<^verbatim>\<open>Env.OpenSrv\<close>, lines 125 to 177\<close>

text \<open>
  Lines 164 to 176: the server comes from the pool and is filled in. In Go the
  expression \<^verbatim>\<open>&(*p)\<close> is the pointer \<^verbatim>\<open>p\<close>: it is the address of the variable that \<^verbatim>\<open>p\<close>
  points to, and no variable is made. \<^verbatim>\<open>srv.env\<close> is the environment, assigned four
  lines before.
\<close>

definition OpenSrv_assign ::
  "ref \<Rightarrow> SrvCfg \<Rightarrow> handle option \<Rightarrow> handle option \<Rightarrow> world \<Rightarrow> (error + ref) \<times> world" where
  "OpenSrv_assign env cfg hsrv hsvc w =
    (let (srv, w1) = srvPool_Get w;
         el = nextElem w1;
         w2 = w1\<lparr>envs := (envs w1)(env := (envs w1 env)
                 \<lparr>openSrvs := list_PushBack el srv (openSrvs (envs w1 env))\<rparr>),
               nextElem := Suc el\<rparr>;
         s1 = (srvs w2 srv)\<lparr>srv_env := Some env, ocisrv := hsrv, ocisvcctx := hsvc,
                 srv_elem := Some el\<rparr>;
         (s2, w3) = (if srv_id s1 = 0
                     then (s1\<lparr>srv_id := nextId (srvId w2)\<rparr>, w2\<lparr>srvId := nextId (srvId w2)\<rparr>)
                     else (s1, w2));
         s3 = s2\<lparr>srv_cfg := cfg\<rparr>;
         s4 = (if SrvCfg_StmtCfg (srv_cfg s3) = None \<and> EnvCfg_StmtCfg (env_cfg (envs w3 env)) \<noteq> None
               then s3\<lparr>srv_cfg := (srv_cfg s3)
                       \<lparr>SrvCfg_StmtCfg := EnvCfg_StmtCfg (env_cfg (envs w3 env))\<rparr>\<rparr>
               else s3)
     in (Inr srv, w3\<lparr>srvs := (srvs w3)(srv := s4)\<rparr>))"

text \<open>The result is the server, or the error (with which the source returns a nil
  server). The length of the link, passed to the native attach, is left out.\<close>

definition Env_OpenSrv ::
  "env_native \<Rightarrow> ref \<Rightarrow> SrvCfg option \<Rightarrow> world \<Rightarrow> (error + ref) \<times> world" where
  "Env_OpenSrv N env cfg w =
    (case checkClosed w env of
       Some e \<Rightarrow> (Inl (errE e), w)
     | None \<Rightarrow>
    (case cfg of
       None \<Rightarrow> (Inl (er ''Parameter 'cfg' may not be nil.''), w)
     | Some c \<Rightarrow>
    (let (a1, w1) = allocOciHandle N env OCI_HTYPE_SERVER w in
     case a1 of
       Inl e \<Rightarrow> (Inl (errE e), w1)
     | Inr hsrv \<Rightarrow>
    (let r = OCIServerAttach N (now w1) hsrv (ocierr (envs w1 env)) (Dblink c);
         w2 = call (EvServerAttach hsrv (ocierr (envs w1 env)) (Dblink c)) w1
     in if r = OCI_ERROR then (let (e, w3) = ociError N env w2 in (Inl (errE e), w3))
        else
    (let (a2, w3) = allocOciHandle N env OCI_HTYPE_SVCCTX w2 in
     case a2 of
       Inl e \<Rightarrow> (Inl (errE e), w3)
     | Inr hsvc \<Rightarrow>
    (let (err, w4) = setAttr N env hsvc OCI_HTYPE_SVCCTX hsrv 0 OCI_ATTR_SERVER w3 in
     case err of
       Some e \<Rightarrow> (Inl (errE e), w4)
     | None \<Rightarrow> OpenSrv_assign env c hsrv hsvc w4))))))"

subsection \<open>The small methods, lines 257 to 294\<close>

definition Env_NumSrv :: "ref \<Rightarrow> world \<Rightarrow> int" where
  "Env_NumSrv env w = list_Len (openSrvs (envs w env))"


text \<open>\<^verbatim>\<open>SetCfg\<close> has no result; it panics when \<open>cfg\<close> is nil.\<close>

definition Env_SetCfg :: "ref \<Rightarrow> EnvCfg option \<Rightarrow> world \<Rightarrow> unit outcome \<times> world" where
  "Env_SetCfg env cfg w =
    (case cfg of
       None \<Rightarrow> (Panics NilDeref, w)
     | Some c \<Rightarrow> (Returns (), w\<lparr>envs := (envs w)(env := (envs w env)\<lparr>env_cfg := c\<rparr>)\<rparr>))"

text \<open>\<^verbatim>\<open>Cfg\<close> returns the address of the field \<^verbatim>\<open>cfg\<close> of the environment; what it points
  to is read here.\<close>

definition Env_Cfg :: "ref \<Rightarrow> world \<Rightarrow> EnvCfg" where
  "Env_Cfg env w = env_cfg (envs w env)"

definition Env_IsOpen :: "ref \<Rightarrow> world \<Rightarrow> bool" where
  "Env_IsOpen env w = (ocienv (envs w env) \<noteq> None)"

subsection \<open>\<^verbatim>\<open>Env.OpenCon\<close>, lines 190 to 254\<close>

definition set_dbIsUTF8 :: "ref \<Rightarrow> bool \<Rightarrow> world \<Rightarrow> world" where
  "set_dbIsUTF8 srv b w = w\<lparr>srvs := (srvs w)(srv := (srvs w srv)\<lparr>dbIsUTF8 := b\<rparr>)\<rparr>"

text \<open>
  Lines 234 to 253, with the lock \<^verbatim>\<open>conCharsetMu\<close>: it is locked, and the deferred
  \<^verbatim>\<open>Unlock\<close> runs when \<^verbatim>\<open>OpenCon\<close> returns. On a hit of the cache the flag of the server is
  set from the cached name. On a miss the session runs the query; the cache and the flag
  are written only when the query returns no error, a result set whose \<^verbatim>\<open>Next\<close> is true
  and whose row has one value, and that value is a string. \<^verbatim>\<open>con.srv\<close> is the server,
  assigned before.
\<close>

definition OpenCon_charset ::
  "env_native \<Rightarrow> ref \<Rightarrow> ref \<Rightarrow> ref option \<Rightarrow> gostring \<Rightarrow> world \<Rightarrow> (error + ref) \<times> world" where
  "OpenCon_charset N con srv ses dblink w0 =
    (let w = call EvLock w0 in
     case conCharset w dblink of
       Some cs \<Rightarrow> (Inr con, call EvUnlock (set_dbIsUTF8 srv (cs = runes ''AL32UTF8'') w))
     | None \<Rightarrow>
        (let (rset, err) = Ses_PrepAndQry N (now w) ses;
             w1 = call (EvPrepAndQry ses) w;
             w2 = (if err \<noteq> None then w1
                   else case rset of
                          None \<Rightarrow> w1
                        | Some rs \<Rightarrow>
                           if Rset_Next rs \<and> length (Rset_Row rs) = 1
                           then (case hd (Rset_Row rs) of
                                   GoString cs \<Rightarrow>
                                     set_dbIsUTF8 srv (cs = runes ''AL32UTF8'')
                                       (w1\<lparr>conCharset := (conCharset w1)(dblink \<mapsto> cs)\<rparr>)
                                 | GoOther \<Rightarrow> w1)
                           else w1)
         in (Inr con, call EvUnlock w2)))"

text \<open>Lines 226 to 233: the connection comes from the pool and is filled in.\<close>

definition OpenCon_assign :: "ref \<Rightarrow> ref \<Rightarrow> ref option \<Rightarrow> world \<Rightarrow> ref \<times> world" where
  "OpenCon_assign env srv ses w =
    (let (con, w1) = conPool_Get w;
         el = nextElem w1;
         w2 = w1\<lparr>envs := (envs w1)(env := (envs w1 env)
                 \<lparr>openCons := list_PushBack el con (openCons (envs w1 env))\<rparr>),
               nextElem := Suc el\<rparr>;
         c1 = (cons w2 con)\<lparr>con_env := Some env, con_srv := Some srv, con_ses := ses,
                 con_elem := Some el\<rparr>;
         (c2, w3) = (if con_id c1 = 0
                     then (c1\<lparr>con_id := nextId (conId w2)\<rparr>, w2\<lparr>conId := nextId (conId w2)\<rparr>)
                     else (c1, w2))
     in (con, w3\<lparr>cons := (cons w3)(con := c2)\<rparr>))"

text \<open>Lines 212 to 225: the server is opened on the link, the session on the server.
  \<^verbatim>\<open>srv.env\<close> is the environment. The result is the server, the session and the link.\<close>

definition OpenCon_open ::
  "env_native \<Rightarrow> ref \<Rightarrow> gostring \<Rightarrow> gostring \<Rightarrow> gostring \<Rightarrow> world
    \<Rightarrow> (error + ref \<times> ref option) \<times> world" where
  "OpenCon_open N env username password dblink w =
    (let srvCfg = (NewSrvCfg N (now w))\<lparr>Dblink := dblink\<rparr>;
         (r1, w1) = Env_OpenSrv N env (Some srvCfg) w
     in case r1 of
          Inl e \<Rightarrow> (Inl (errE e), w1)
        | Inr srv \<Rightarrow>
           (let sesCfg = (NewSesCfg N (now w1))
                   \<lparr>Username := username, Password := password,
                    SesCfg_StmtCfg := EnvCfg_StmtCfg (env_cfg (envs w1 env))\<rparr>;
                (ses, err) = Srv_OpenSes N (now w1) srv sesCfg;
                w2 = call (EvOpenSes srv sesCfg) w1
            in case err of
                 Some e \<Rightarrow> (Inl (errE e), w2)
               | None \<Rightarrow> (Inr (srv, ses), w2)))"

text \<open>The result is the connection, or the error (with which the source returns a nil
  connection).\<close>

definition Env_OpenCon :: "env_native \<Rightarrow> ref \<Rightarrow> gostring \<Rightarrow> world \<Rightarrow> (error + ref) \<times> world" where
  "Env_OpenCon N env str w =
    (case checkClosed w env of
       Some e \<Rightarrow> (Inl (errE e), w)
     | None \<Rightarrow>
    (case parseConStr str of
       Inl e \<Rightarrow> (Inl e, w)
     | Inr (username, password, dblink) \<Rightarrow>
    (let (r, w1) = OpenCon_open N env username password dblink w in
     case r of
       Inl e \<Rightarrow> (Inl e, w1)
     | Inr (srv, ses) \<Rightarrow>
        (let (con, w2) = OpenCon_assign env srv ses w1
         in OpenCon_charset N con srv ses dblink w2))))"



text \<open>A statement configuration is read through its pointer in the store of statement
  configurations, and written through it.\<close>

definition read_StmtCfg :: "(ref \<Rightarrow> 'c) \<Rightarrow> ref option \<Rightarrow> 'c option" where
  "read_StmtCfg H p = map_option H p"

definition write_StmtCfg :: "(ref \<Rightarrow> 'c) \<Rightarrow> ref \<Rightarrow> 'c \<Rightarrow> ref \<Rightarrow> 'c" where
  "write_StmtCfg H p v = H(p := v)"

subsection \<open>A concrete process\<close>

text \<open>One open environment at address 1, with two open connections (11, 12) and one
  open server (21), a default statement configuration at address 5, and an empty cache.\<close>

definition demo_env :: Env where
  "demo_env = \<lparr>env_id = 1, env_cfg = \<lparr>EnvCfg_StmtCfg = Some 5\<rparr>, ocienv = Some 70,
     ocierr = Some 71, openSrvs = [(3, 21)], openCons = [(1, 11), (2, 12)], env_elem = Some 0\<rparr>"

definition closed_env :: Env where
  "closed_env = \<lparr>env_id = 1, env_cfg = \<lparr>EnvCfg_StmtCfg = Some 5\<rparr>, ocienv = None,
     ocierr = None, openSrvs = [], openCons = [], env_elem = None\<rparr>"

definition demo_world :: world where
  "demo_world = \<lparr>envs = (\<lambda>r. if r = 1 then demo_env else closed_env), srvs = (\<lambda>r. zero_Srv),
     cons = (\<lambda>r. zero_Con), openEnvs = [(0, 1)], envPool = [], srvPool = [], conPool = [],
     srvId = 0, conId = 0, nextElem = 4, nextRef = 100, conCharset = Map.empty, trace = []\<rparr>"

text \<open>A client in which every native call succeeds, the children close without error,
  and the metadata query answers with the name of the character set.\<close>

definition demo_native :: env_native where
  "demo_native = \<lparr>
     OCIHandleAlloc = (\<lambda>t parent ty. (OCI_SUCCESS, Some (200 + t))),
     OCIHandleFree = (\<lambda>t h ty. OCI_SUCCESS),
     OCIServerAttach = (\<lambda>t srvhp errhp dblink. OCI_SUCCESS),
     OCIAttrSet = (\<lambda>t target tty attr sz aty errhp. OCI_SUCCESS),
     OCIErrorGet = (\<lambda>t errhp. ''ORA-12154''),
     Con_Close = (\<lambda>t c. Returns None),
     Srv_Close = (\<lambda>t s. Returns None),
     NewSrvCfg = (\<lambda>t. \<lparr>Dblink = [], SrvCfg_StmtCfg = None\<rparr>),
     NewSesCfg = (\<lambda>t. \<lparr>Username = [], Password = [], SesCfg_StmtCfg = None\<rparr>),
     Srv_OpenSes = (\<lambda>t srv cfg. (Some (300 + t), None)),
     Ses_PrepAndQry = (\<lambda>t ses. (Some \<lparr>Rset_Next = True, Rset_Row = [GoString (runes ''AL32UTF8'')]\<rparr>, None))\<rparr>"

subsection \<open>The children of a closing environment\<close>




text \<open>Three variations of the client: the \<^verbatim>\<open>Close\<close> of connection 11 panics; the
  \<^verbatim>\<open>Close\<close> of connection 12 and of server 21 return an error; the native free of the
  environment handle reports an invalid handle.\<close>

definition panicking_native :: env_native where
  "panicking_native = demo_native
     \<lparr>Con_Close := (\<lambda>t c. if c = 11 then Panics (PanicVal ''boom'') else Returns None)\<rparr>"

definition failing_native :: env_native where
  "failing_native = demo_native
     \<lparr>Con_Close := (\<lambda>t c. if c = 12 then Returns (Some (Er ''ORA-03114'')) else Returns None),
      Srv_Close := (\<lambda>t s. Returns (Some (Er ''ORA-03113'')))\<rparr>"

definition invalid_free_native :: env_native where
  "invalid_free_native = demo_native\<lparr>OCIHandleFree := (\<lambda>t h ty. OCI_INVALID_HANDLE)\<rparr>"


subsection \<open>What a call of \<^verbatim>\<open>OpenCon\<close> is described with\<close>







section \<open>Properties of the binders\<close>

lemma bindNumber_steps:
  "bindNumber N s bnd position ev0 =
    (let errhp = stmt_ocierr s;
         pos = ub4 position;
         call = OCIBindByPos N (ocistmt s) errhp pos (PtrNumber (ociNumber bnd)) sizeof_OCINumber SQLT_VNU;
         reg = EvBindByPos (ocistmt s) errhp pos (PtrNumber (ociNumber bnd)) sizeof_OCINumber SQLT_VNU
     in if fst call = OCI_ERROR
        then (Returns (Some (Er (bnd_OCIErrorGet N errhp))), bnd\<lparr>ocibnd := snd call\<rparr>,
              ev0 @ [reg, EvBndErrorGet errhp])
        else (Returns None, bnd\<lparr>ocibnd := snd call\<rparr>, ev0 @ [reg]))"
  by (simp add: bindNumber_def bnd_ociError_def er_def Let_def split: prod.splits)

lemma bndNumber_close_bound:
  "stmt bn = Some s \<Longrightarrow>
   \<exists>b'. stmt b' = None \<and>
     bndNumber_close idx wrap N bn =
       ((case putBnd N (Some s) idx (BNumber b') of Panics v \<Rightarrow> Some (wrap v) | Returns u \<Rightarrow> None),
        b', [EvPutBnd (Some s) idx (BNumber b')])"
  by (rule exI [of _ "bn\<lparr>stmt := None, ocibnd := None\<rparr>"])
     (simp add: bndNumber_close_def Let_def split: outcome.splits)

lemma bindNumber_registration:
  "result_and_calls (bindNumber N s bnd position ev0) =
     registration N s position (PtrNumber (ociNumber bnd)) sizeof_OCINumber SQLT_VNU ev0"
  by (simp add: bindNumber_def registration_def result_and_calls_def bnd_ociError_def
      Let_def split: prod.splits)

lemma bndFloat32_bind_steps:
  "result_and_calls (bndFloat32_bind N S b v position (Some s)) =
    (let conv = OCINumberFromReal N (stmt_ocierr (S s)) (Float32Bits v) 4;
         ev = EvNumberFromReal (stmt_ocierr (S s)) (Float32Bits v) 4
     in if fst conv = OCI_ERROR then conversion_failure N (S s) ev
        else registration N (S s) position (PtrNumber (snd conv)) sizeof_OCINumber SQLT_VNU [ev])"
  by (simp add: bndFloat32_bind_def bindNumber_registration conversion_failure_def
      bnd_ociError_def Let_def split: prod.splits)
     (simp add: result_and_calls_def)

lemma bndFloat64_bind_steps:
  "result_and_calls (bndFloat64_bind N S b v position (Some s)) =
    (let conv = OCINumberFromReal N (stmt_ocierr (S s)) (Float64Bits v) 8;
         ev = EvNumberFromReal (stmt_ocierr (S s)) (Float64Bits v) 8
     in if fst conv = OCI_ERROR then conversion_failure N (S s) ev
        else registration N (S s) position (PtrNumber (snd conv)) sizeof_OCINumber SQLT_VNU [ev])"
  by (simp add: bndFloat64_bind_def bindNumber_registration conversion_failure_def
      bnd_ociError_def Let_def split: prod.splits)
     (simp add: result_and_calls_def)

lemma bndUint64_bind_steps:
  "result_and_calls (bndUint64_bind N S b v position (Some s)) =
    (let conv = OCINumberFromInt N (stmt_ocierr (S s)) v 8 OCI_NUMBER_UNSIGNED;
         ev = EvNumberFromInt (stmt_ocierr (S s)) v 8 OCI_NUMBER_UNSIGNED
     in if fst conv = OCI_ERROR then conversion_failure N (S s) ev
        else registration N (S s) position (PtrNumber (snd conv)) sizeof_OCINumber SQLT_VNU [ev])"
  by (simp add: bndUint64_bind_def bindNumber_registration conversion_failure_def
      bnd_ociError_def Let_def split: prod.splits)
     (simp add: result_and_calls_def)

lemma bndBin_bind_steps:
  "result_and_calls (bndBin_bind N S b (x # xs) position (Some s)) =
     registration N (S s) position (PtrBytes (x # xs)) (length (x # xs)) SQLT_LBI []"
  by (simp add: bndBin_bind_def registration_def result_and_calls_def bnd_ociError_def
      Let_def split: prod.splits)

lemma ub4_in_range: "0 \<le> i \<Longrightarrow> i < 2 ^ 32 \<Longrightarrow> uint (ub4 i) = i"
  by (simp add: ub4_def uint_word_of_int take_bit_eq_mod)

lemma registration_claimed:
  "fst (registration N s position vp sz tag before) =
    (if fst (OCIBindByPos N (ocistmt s) (stmt_ocierr s) (ub4 position) vp sz tag) = OCI_INVALID_HANDLE
     then Returns None
     else claimed_result N s (fst (OCIBindByPos N (ocistmt s) (stmt_ocierr s) (ub4 position) vp sz tag)))"
  by (simp add: registration_def claimed_result_def native_failure_def Let_def)

text \<open>
  Claim C10: \<^verbatim>\<open>bndBin.bind\<close> takes the address of element 0 of the slice without a
  length test. On an empty slice, with a statement at hand, it panics with an index out
  of range, the panic reaches the caller, and no native call has been made. On every
  non-empty slice it returns, after the registration call.
\<close>

theorem bndBin_bind_empty_slice_panics:
  "bndBin_bind N S bnd [] position (Some s) = (Panics IndexOutOfRange, bnd\<lparr>bin_stmt := Some s\<rparr>, [])
   \<and> (\<forall>v vs. \<exists>e b'. bndBin_bind N S bnd (v # vs) position (Some s) =
          (Returns e, b',
           EvBindByPos (ocistmt (S s)) (stmt_ocierr (S s)) (ub4 position) (PtrBytes (v # vs))
             (Suc (length vs)) SQLT_LBI
           # (if e = None then [] else [EvBndErrorGet (stmt_ocierr (S s))])))"
  by (auto simp add: bndBin_bind_def bnd_ociError_def er_def Let_def split: prod.splits)

text \<open>
  Claim C7: the \<^verbatim>\<open>close\<close> of each of the four binders clears the binder's statement
  back-reference before it hands the binder to the statement's pool: the binder that
  \<^verbatim>\<open>putBnd\<close> receives has a nil statement, while the call goes to the statement the
  binder was bound to. It is the only call made. A panic of the hand-back is recovered
  and becomes the returned error; otherwise the result is nil.
\<close>

theorem close_clears_stmt_before_putBnd:
  "bin_stmt bb = Some s \<Longrightarrow> stmt bn = Some s \<Longrightarrow>
   (\<exists>b'. bin_stmt b' = None \<and>
      bndBin_close N bb =
        ((case putBnd N (Some s) bndIdxBin (BBin b') of Panics v \<Rightarrow> Some (errR v) | Returns u \<Rightarrow> None),
         b', [EvPutBnd (Some s) bndIdxBin (BBin b')]))
   \<and> (\<exists>b'. stmt b' = None \<and>
      bndFloat32_close N bn =
        ((case putBnd N (Some s) bndIdxFloat32 (BNumber b') of Panics v \<Rightarrow> Some (errRecover v) | Returns u \<Rightarrow> None),
         b', [EvPutBnd (Some s) bndIdxFloat32 (BNumber b')]))
   \<and> (\<exists>b'. stmt b' = None \<and>
      bndFloat64_close N bn =
        ((case putBnd N (Some s) bndIdxFloat64 (BNumber b') of Panics v \<Rightarrow> Some (errR v) | Returns u \<Rightarrow> None),
         b', [EvPutBnd (Some s) bndIdxFloat64 (BNumber b')]))
   \<and> (\<exists>b'. stmt b' = None \<and>
      bndUint64_close N bn =
        ((case putBnd N (Some s) bndIdxUint64 (BNumber b') of Panics v \<Rightarrow> Some (errR v) | Returns u \<Rightarrow> None),
         b', [EvPutBnd (Some s) bndIdxUint64 (BNumber b')]))"
proof (intro conjI)
  assume b: "bin_stmt bb = Some s"
  show "\<exists>b'. bin_stmt b' = None \<and>
      bndBin_close N bb =
        ((case putBnd N (Some s) bndIdxBin (BBin b') of Panics v \<Rightarrow> Some (errR v) | Returns u \<Rightarrow> None),
         b', [EvPutBnd (Some s) bndIdxBin (BBin b')])"
    using b
    by (intro exI [of _ "bb\<lparr>bin_stmt := None\<rparr>"])
       (simp add: bndBin_close_def Let_def split: outcome.splits)
next
  assume n: "stmt bn = Some s"
  show "\<exists>b'. stmt b' = None \<and>
      bndFloat32_close N bn =
        ((case putBnd N (Some s) bndIdxFloat32 (BNumber b') of Panics v \<Rightarrow> Some (errRecover v) | Returns u \<Rightarrow> None),
         b', [EvPutBnd (Some s) bndIdxFloat32 (BNumber b')])"
    unfolding bndFloat32_close_def by (rule bndNumber_close_bound [OF n])
  show "\<exists>b'. stmt b' = None \<and>
      bndFloat64_close N bn =
        ((case putBnd N (Some s) bndIdxFloat64 (BNumber b') of Panics v \<Rightarrow> Some (errR v) | Returns u \<Rightarrow> None),
         b', [EvPutBnd (Some s) bndIdxFloat64 (BNumber b')])"
    unfolding bndFloat64_close_def by (rule bndNumber_close_bound [OF n])
  show "\<exists>b'. stmt b' = None \<and>
      bndUint64_close N bn =
        ((case putBnd N (Some s) bndIdxUint64 (BNumber b') of Panics v \<Rightarrow> Some (errR v) | Returns u \<Rightarrow> None),
         b', [EvPutBnd (Some s) bndIdxUint64 (BNumber b')])"
    unfolding bndUint64_close_def by (rule bndNumber_close_bound [OF n])
qed

theorem close_clears_stmt_before_putBnd_witness:
  "bin_stmt demo_bndBin = Some 3 \<and> stmt demo_bndNumber = Some 3
   \<and> bndBin_close demo_bnd_native demo_bndBin =
        (None, \<lparr>bin_stmt = None, bin_ocibnd = Some 55\<rparr>,
         [EvPutBnd (Some 3) bndIdxBin (BBin \<lparr>bin_stmt = None, bin_ocibnd = Some 55\<rparr>)])
   \<and> bndFloat64_close demo_bnd_native demo_bndNumber =
        (Some (ErrR (PanicVal ''pool'')), \<lparr>stmt = None, ocibnd = None, ociNumber = [193, 2]\<rparr>,
         [EvPutBnd (Some 3) bndIdxFloat64 (BNumber \<lparr>stmt = None, ocibnd = None, ociNumber = [193, 2]\<rparr>)])"
  using close_clears_stmt_before_putBnd [of demo_bndBin 3 demo_bndNumber demo_bnd_native]
  by (simp add: demo_bndBin_def demo_bndNumber_def demo_bnd_native_def bndBin_close_def
      bndFloat64_close_def bndNumber_close_def errR_def Let_def)

text \<open>
  Claim C8, amended. With a statement at hand, each numeric binder first converts the
  value into the native number with its own width (4 for the 32-bit float, 8 for the
  64-bit float, 8 and the unsigned flag for the unsigned 64-bit integer); when the
  conversion returns \<^verbatim>\<open>OCI_ERROR\<close> it returns the native error and registers nothing, and
  on every other return code it goes on. It registers the number buffer, 22 bytes, with
  the tag \<^verbatim>\<open>SQLT_VNU\<close>; the bytes binder, on a non-empty slice, registers the bytes with
  the tag \<^verbatim>\<open>SQLT_LBI\<close>. The registration goes to the statement's native handle at the
  position converted to 32 bits, which is the given position when that lies in the
  32-bit range. The result is the native error when the registration returns
  \<^verbatim>\<open>OCI_ERROR\<close>, and nil on every other return code: it is the result the specification
  gives, but when the registration reports an invalid handle, where the specification
  gives an error and the binder returns nil.
\<close>

theorem bind_converts_then_registers:
  "result_and_calls (bndFloat32_bind N S b vf position (Some s)) =
     (let conv = OCINumberFromReal N (stmt_ocierr (S s)) (Float32Bits vf) 4;
          ev = EvNumberFromReal (stmt_ocierr (S s)) (Float32Bits vf) 4
      in if fst conv = OCI_ERROR then conversion_failure N (S s) ev
         else registration N (S s) position (PtrNumber (snd conv)) sizeof_OCINumber SQLT_VNU [ev])
   \<and> result_and_calls (bndFloat64_bind N S b vd position (Some s)) =
     (let conv = OCINumberFromReal N (stmt_ocierr (S s)) (Float64Bits vd) 8;
          ev = EvNumberFromReal (stmt_ocierr (S s)) (Float64Bits vd) 8
      in if fst conv = OCI_ERROR then conversion_failure N (S s) ev
         else registration N (S s) position (PtrNumber (snd conv)) sizeof_OCINumber SQLT_VNU [ev])
   \<and> result_and_calls (bndUint64_bind N S b vu position (Some s)) =
     (let conv = OCINumberFromInt N (stmt_ocierr (S s)) vu 8 OCI_NUMBER_UNSIGNED;
          ev = EvNumberFromInt (stmt_ocierr (S s)) vu 8 OCI_NUMBER_UNSIGNED
      in if fst conv = OCI_ERROR then conversion_failure N (S s) ev
         else registration N (S s) position (PtrNumber (snd conv)) sizeof_OCINumber SQLT_VNU [ev])
   \<and> result_and_calls (bndBin_bind N S bb (x # xs) position (Some s)) =
     registration N (S s) position (PtrBytes (x # xs)) (length (x # xs)) SQLT_LBI []
   \<and> fst (registration N (S s) position vp sz tag before) =
     (if fst (OCIBindByPos N (ocistmt (S s)) (stmt_ocierr (S s)) (ub4 position) vp sz tag)
           = OCI_INVALID_HANDLE
      then Returns None
      else claimed_result N (S s)
             (fst (OCIBindByPos N (ocistmt (S s)) (stmt_ocierr (S s)) (ub4 position) vp sz tag)))
   \<and> (0 \<le> position \<and> position < 2 ^ 32 \<longrightarrow> uint (ub4 position) = position)"
  using bndFloat32_bind_steps [of N S b vf position s]
    bndFloat64_bind_steps [of N S b vd position s]
    bndUint64_bind_steps [of N S b vu position s]
    bndBin_bind_steps [of N S bb x xs position s]
    registration_claimed [of N "S s" position vp sz tag before]
    ub4_in_range [of position]
  by blast

text \<open>The theorem at the concrete client: a failed conversion, a successful
  registration, a failed registration, and a registration of two bytes.\<close>

theorem bind_converts_then_registers_witness:
  "(0::int) \<le> 1 \<and> (1::int) < 2 ^ 32 \<and> uint (ub4 1) = 1
   \<and> result_and_calls (bndFloat32_bind demo_bnd_native demo_stmts demo_bndNumber 5 1 (Some 3)) =
       (Returns (Some (Er ''ORA-01036'')),
        [EvNumberFromReal (Some 7) (Float32Bits 5) 4, EvBndErrorGet (Some 7)])
   \<and> result_and_calls (bndFloat64_bind demo_bnd_native demo_stmts demo_bndNumber 5 1 (Some 3)) =
       (Returns None,
        [EvNumberFromReal (Some 7) (Float64Bits 5) 8,
         EvBindByPos (Some 103) (Some 7) 1 (PtrNumber [193, 2]) 22 SQLT_VNU])
   \<and> result_and_calls (bndUint64_bind demo_bnd_native demo_stmts demo_bndNumber 5 2 (Some 3)) =
       (Returns (Some (Er ''ORA-01036'')),
        [EvNumberFromInt (Some 7) 5 8 OCI_NUMBER_UNSIGNED,
         EvBindByPos (Some 103) (Some 7) 2 (PtrNumber [193, 3]) 22 SQLT_VNU,
         EvBndErrorGet (Some 7)])
   \<and> result_and_calls (bndBin_bind demo_bnd_native demo_stmts demo_bndBin [1, 2] 1 (Some 3)) =
       (Returns None, [EvBindByPos (Some 103) (Some 7) 1 (PtrBytes [1, 2]) 2 SQLT_LBI])"
  using bind_converts_then_registers
    [where N = demo_bnd_native and S = demo_stmts and b = demo_bndNumber and vf = 5
       and position = 1 and s = 3 and vd = 5 and vu = 5 and bb = demo_bndBin and x = 1
       and xs = "[2]"]
    bind_converts_then_registers
    [where N = demo_bnd_native and S = demo_stmts and b = demo_bndNumber and vf = 5
       and position = 2 and s = 3 and vd = 5 and vu = 5 and bb = demo_bndBin and x = 1
       and xs = "[2]"]
  by (simp add: demo_bnd_native_def demo_stmts_def registration_def
      conversion_failure_def sizeof_OCINumber_def er_def ub4_def Let_def)

text \<open>Claim C8 as stated covers every call, every failure of a native call, and the
  given position. On the empty slice the bytes binder makes no registration and returns
  neither an error nor nil: it panics. With a client that reports an invalid handle for
  the conversion and for the registration, both native calls fail, the specification
  gives a client error, and the 64-bit float binder goes on after the conversion and
  returns nil. And the position 4294967297 is registered at position 1.\<close>

theorem bind_diverges_from_claim:
  "bndBin_bind demo_bnd_native demo_stmts demo_bndBin [] 1 (Some 3) =
     (Panics IndexOutOfRange, demo_bndBin, [])
   \<and> native_failure (fst (OCINumberFromReal invalid_handle_bnd_native (Some 7) (Float64Bits 5) 8))
   \<and> native_failure (fst (OCIBindByPos invalid_handle_bnd_native (Some 103) (Some 7) 1
                             (PtrNumber []) 22 SQLT_VNU))
   \<and> claimed_result invalid_handle_bnd_native (demo_stmts 3) OCI_INVALID_HANDLE =
       Returns (Some (Er ''ORA-01036''))
   \<and> result_and_calls (bndFloat64_bind invalid_handle_bnd_native demo_stmts demo_bndNumber 5 1 (Some 3)) =
       (Returns None,
        [EvNumberFromReal (Some 7) (Float64Bits 5) 8,
         EvBindByPos (Some 103) (Some 7) 1 (PtrNumber []) 22 SQLT_VNU])
   \<and> result_and_calls (bndBin_bind demo_bnd_native demo_stmts demo_bndBin [1, 2] 4294967297 (Some 3)) =
       (Returns None, [EvBindByPos (Some 103) (Some 7) 1 (PtrBytes [1, 2]) 2 SQLT_LBI])"
  by (simp add: bndBin_bind_def bndFloat64_bind_def bindNumber_def demo_bndBin_def
      demo_bndNumber_def demo_bnd_native_def invalid_handle_bnd_native_def demo_stmts_def
      native_failure_def claimed_result_def result_and_calls_def sizeof_OCINumber_def
      er_def ub4_def Let_def)

section \<open>Properties of \<^verbatim>\<open>Env.Close\<close>\<close>

lemma now_call: "now (call e w) = Suc (now w)"
  by (simp add: now_def call_def)














lemma child_simps:
  "child_Close N KCon = Con_Close N" "child_Close N KSrv = Srv_Close N"
  "child_event KCon = EvConClose" "child_event KSrv = EvSrvClose"
  by (simp_all add: child_Close_def child_event_def)





lemmas Close_unfold = Env_Close_def Close_body_def Close_deferred_def checkClosed_def
  list_Front_def elem_Next_def child_simps child_removed_def
  children_def set_children_def
  freeOciHandle_def ociError_def envPool_Put_def list_Remove_def newMultiErrL_def
  call_def now_def er_def errE_def errR_def Let_def

lemmas demo_unfold = demo_world_def demo_env_def closed_env_def demo_native_def
  panicking_native_def failing_native_def invalid_free_native_def






section \<open>Properties of a closed environment\<close>

lemma Env_Close_returned_is_closed:
  assumes "Env_Close N env w0 = (Returns r, w)"
  shows "ocienv (envs w env) = None"
proof (cases "checkClosed w0 env")
  case (Some e)
  with assms show ?thesis by (auto simp add: Env_Close_def checkClosed_def split: if_splits)
next
  case None
  obtain b errs w1 where body: "Close_body N env w0 = (b, errs, w1)"
    by (cases "Close_body N env w0")
  with None assms have d: "Close_deferred env b errs w1 = (Returns r, w)"
    by (simp add: Env_Close_def)
  then show ?thesis
    by (auto simp add: Close_deferred_def envPool_Put_def Let_def split: option.splits)
qed

text \<open>
  Claim C5, amended. On an environment on which \<^verbatim>\<open>Close\<close> has returned, \<^verbatim>\<open>Close\<close>,
  \<^verbatim>\<open>OpenSrv\<close> and \<^verbatim>\<open>OpenCon\<close> fail with the error of a closed environment, make no call
  and leave the state as it is, and \<^verbatim>\<open>IsOpen\<close> is false. \<^verbatim>\<open>SetCfg\<close> makes no check: it
  returns and replaces the configuration, which \<^verbatim>\<open>Cfg\<close> then gives. \<^verbatim>\<open>SetCfg\<close>, \<^verbatim>\<open>Cfg\<close>,
  \<^verbatim>\<open>NumSrv\<close> and \<^verbatim>\<open>NumCon\<close> have no error result.
\<close>

theorem closed_env_refuses_open_and_close:
  assumes "Env_Close N0 env w0 = (Returns r, w)"
  shows "Env_Close N env w = (Returns (Some (ErrE (Er ''Env is closed.''))), w)
    \<and> Env_OpenSrv N env cfg w = (Inl (ErrE (Er ''Env is closed.'')), w)
    \<and> Env_OpenCon N env str w = (Inl (ErrE (Er ''Env is closed.'')), w)
    \<and> Env_IsOpen env w = False
    \<and> Env_SetCfg env (Some c) w =
        (Returns (), w\<lparr>envs := (envs w)(env := (envs w env)\<lparr>env_cfg := c\<rparr>)\<rparr>)
    \<and> Env_Cfg env (snd (Env_SetCfg env (Some c) w)) = c"
proof -
  from Env_Close_returned_is_closed [OF assms] have "ocienv (envs w env) = None" .
  then show ?thesis
    by (simp add: Env_Close_def Env_OpenSrv_def Env_OpenCon_def Env_IsOpen_def Env_SetCfg_def
        Env_Cfg_def checkClosed_def er_def errE_def)
qed

text \<open>The theorem at the concrete process, after its environment has been closed.\<close>

theorem closed_env_refuses_open_and_close_witness:
  "Env_Close demo_native 1 demo_world = (Returns None, snd (Env_Close demo_native 1 demo_world))
   \<and> Env_Close demo_native 1 (snd (Env_Close demo_native 1 demo_world)) =
       (Returns (Some (ErrE (Er ''Env is closed.''))), snd (Env_Close demo_native 1 demo_world))
   \<and> Env_OpenCon demo_native 1 (runes ''scott/tiger@orcl'') (snd (Env_Close demo_native 1 demo_world)) =
       (Inl (ErrE (Er ''Env is closed.'')), snd (Env_Close demo_native 1 demo_world))
   \<and> Env_OpenSrv demo_native 1 None (snd (Env_Close demo_native 1 demo_world)) =
       (Inl (ErrE (Er ''Env is closed.'')), snd (Env_Close demo_native 1 demo_world))"
proof -
  have c: "Env_Close demo_native 1 demo_world = (Returns None, snd (Env_Close demo_native 1 demo_world))"
    by (simp add: prod_eq_iff) (simp add: Close_unfold demo_unfold)
  from closed_env_refuses_open_and_close [OF c, of demo_native None "runes ''scott/tiger@orcl''"] c
  show ?thesis by simp
qed

text \<open>Claim C5 as stated has \<^verbatim>\<open>SetCfg\<close>, \<^verbatim>\<open>Cfg\<close>, \<^verbatim>\<open>NumSrv\<close> and \<^verbatim>\<open>NumCon\<close> fail on a closed
  environment without a change of state. On the closed environment \<^verbatim>\<open>SetCfg\<close> returns and
  the configuration is another one afterwards; \<^verbatim>\<open>NumSrv\<close> answers 0.\<close>

theorem closed_env_accepts_SetCfg:
  "fst (Env_Close demo_native 1 demo_world) = Returns None
   \<and> fst (Env_SetCfg 1 (Some \<lparr>EnvCfg_StmtCfg = None\<rparr>) (snd (Env_Close demo_native 1 demo_world)))
       = Returns ()
   \<and> Env_Cfg 1 (snd (Env_Close demo_native 1 demo_world)) = \<lparr>EnvCfg_StmtCfg = Some 5\<rparr>
   \<and> Env_Cfg 1 (snd (Env_SetCfg 1 (Some \<lparr>EnvCfg_StmtCfg = None\<rparr>)
                        (snd (Env_Close demo_native 1 demo_world))))
       = \<lparr>EnvCfg_StmtCfg = None\<rparr>
   \<and> Env_NumSrv 1 (snd (Env_Close demo_native 1 demo_world)) = 0"
  by (simp add: Close_unfold demo_unfold Env_SetCfg_def Env_Cfg_def Env_NumSrv_def list_Len_def)

section \<open>Properties of \<^verbatim>\<open>Env.OpenSrv\<close>\<close>

lemma allocOciHandle_frame:
  "\<exists>r evs. allocOciHandle N env ty w = (r, w\<lparr>trace := trace w @ evs\<rparr>)"
  by (auto simp add: allocOciHandle_def call_def Let_def split: prod.splits)

lemma setAttr_frame:
  "\<exists>r evs. setAttr N env t tt a sz at w = (r, w\<lparr>trace := trace w @ evs\<rparr>)"
  by (auto simp add: setAttr_def ociError_def call_def Let_def split: prod.splits)

lemma OpenSrv_assign_shares:
  assumes "OpenSrv_assign env cfg hs hc w = (r, w')"
    and "SrvCfg_StmtCfg cfg = None"
    and "EnvCfg_StmtCfg (env_cfg (envs w env)) = Some a"
  shows "\<exists>srv. r = Inr srv \<and> SrvCfg_StmtCfg (srv_cfg (srvs w' srv)) = Some a
    \<and> env_cfg (envs w' env) = env_cfg (envs w env)"
  using assms
  by (auto simp add: OpenSrv_assign_def srvPool_Get_def Let_def split: list.splits if_splits)

lemma Env_OpenSrv_success:
  assumes "Env_OpenSrv N env (Some c) w = (Inr srv, w')"
  shows "\<exists>hs hc evs. OpenSrv_assign env c hs hc (w\<lparr>trace := trace w @ evs\<rparr>) = (Inr srv, w')"
proof -
  obtain a1 evs1 where 1: "allocOciHandle N env OCI_HTYPE_SERVER w = (a1, w\<lparr>trace := trace w @ evs1\<rparr>)"
    using allocOciHandle_frame by blast
  let ?w1 = "w\<lparr>trace := trace w @ evs1\<rparr>"
  show ?thesis
  proof (cases a1)
    case (Inl e)
    with assms 1 show ?thesis
      by (simp add: Env_OpenSrv_def split: option.splits)
  next
    case (Inr hsrv)
    note hs = Inr
    let ?w2 = "call (EvServerAttach hsrv (ocierr (envs ?w1 env)) (Dblink c)) ?w1"
    have w2: "?w2 = w\<lparr>trace := trace w @ evs1 @ [EvServerAttach hsrv (ocierr (envs ?w1 env)) (Dblink c)]\<rparr>"
      by (simp add: call_def)
    obtain a2 evs2 where 2: "allocOciHandle N env OCI_HTYPE_SVCCTX ?w2 = (a2, ?w2\<lparr>trace := trace ?w2 @ evs2\<rparr>)"
      using allocOciHandle_frame by blast
    let ?w3 = "?w2\<lparr>trace := trace ?w2 @ evs2\<rparr>"
    show ?thesis
    proof (cases a2)
      case (Inl e)
      with assms 1 2 hs show ?thesis
        by (simp add: Env_OpenSrv_def Let_def ociError_def split: option.splits if_splits)
    next
      case (Inr hsvc)
      obtain r3 evs3 where 3: "setAttr N env hsvc OCI_HTYPE_SVCCTX hsrv 0 OCI_ATTR_SERVER ?w3
          = (r3, ?w3\<lparr>trace := trace ?w3 @ evs3\<rparr>)"
        using setAttr_frame by blast
      have "?w3\<lparr>trace := trace ?w3 @ evs3\<rparr> =
          w\<lparr>trace := trace w @ (evs1 @ [EvServerAttach hsrv (ocierr (envs ?w1 env)) (Dblink c)] @ evs2 @ evs3)\<rparr>"
        by (simp add: call_def)
      with assms 1 2 3 hs Inr show ?thesis
        by (auto simp add: Env_OpenSrv_def Let_def ociError_def split: option.splits if_splits)
    qed
  qed
qed

text \<open>
  Claim C3. The claim is that a server opened without a statement configuration gets a
  copy of the environment's default, so that a later change of the default leaves the
  server's configuration as it was; the comment at line 174 says the same. What the code
  does: after a successful \<^verbatim>\<open>OpenSrv\<close> with a configuration that has no statement
  configuration, on an environment whose default is the pointer \<open>a\<close>, the server's
  statement configuration is the same pointer \<open>a\<close> as the environment's. So a write
  through the environment's pointer is read through the server's: whatever \<open>v\<close> is
  written at \<open>a\<close>, the server's statement configuration is \<open>v\<close>.
\<close>

theorem OpenSrv_shares_default_StmtCfg:
  assumes "Env_OpenSrv N env (Some cfg) w = (Inr srv, w')"
    and "SrvCfg_StmtCfg cfg = None"
    and "EnvCfg_StmtCfg (env_cfg (envs w env)) = Some a"
  shows "SrvCfg_StmtCfg (srv_cfg (srvs w' srv)) = EnvCfg_StmtCfg (env_cfg (envs w' env))
    \<and> SrvCfg_StmtCfg (srv_cfg (srvs w' srv)) = Some a
    \<and> read_StmtCfg (write_StmtCfg H a v) (SrvCfg_StmtCfg (srv_cfg (srvs w' srv))) = Some v"
proof -
  from Env_OpenSrv_success [OF assms(1)] obtain hs hc evs where
    s: "OpenSrv_assign env cfg hs hc (w\<lparr>trace := trace w @ evs\<rparr>) = (Inr srv, w')"
    by blast
  from assms(3) have "EnvCfg_StmtCfg (env_cfg (envs (w\<lparr>trace := trace w @ evs\<rparr>) env)) = Some a"
    by simp
  from OpenSrv_assign_shares [OF s assms(2) this] assms(3)
  show ?thesis by (auto simp add: read_StmtCfg_def write_StmtCfg_def)
qed

lemmas OpenSrv_unfold = Env_OpenSrv_def OpenSrv_assign_def allocOciHandle_def setAttr_def
  srvPool_Get_def list_PushBack_def nextId_def zero_Srv_def checkClosed_def call_def now_def Let_def

text \<open>At the concrete process: the server opened on the link \<^verbatim>\<open>orcl\<close> reads the
  default at address 5; after the default has been changed there, the server reads the
  changed one.\<close>

theorem OpenSrv_shares_default_StmtCfg_witness:
  "fst (Env_OpenSrv demo_native 1 (Some \<lparr>Dblink = runes ''orcl'', SrvCfg_StmtCfg = None\<rparr>) demo_world)
     = Inr 100
   \<and> SrvCfg_StmtCfg \<lparr>Dblink = runes ''orcl'', SrvCfg_StmtCfg = None\<rparr> = None
   \<and> EnvCfg_StmtCfg (env_cfg (envs demo_world 1)) = Some 5
   \<and> SrvCfg_StmtCfg (srv_cfg (srvs (snd (Env_OpenSrv demo_native 1
        (Some \<lparr>Dblink = runes ''orcl'', SrvCfg_StmtCfg = None\<rparr>) demo_world)) 100)) = Some 5
   \<and> read_StmtCfg (\<lambda>r. ''prefetch 128'') (SrvCfg_StmtCfg (srv_cfg (srvs (snd (Env_OpenSrv demo_native 1
        (Some \<lparr>Dblink = runes ''orcl'', SrvCfg_StmtCfg = None\<rparr>) demo_world)) 100)))
       = Some ''prefetch 128''
   \<and> read_StmtCfg (write_StmtCfg (\<lambda>r. ''prefetch 128'') 5 ''prefetch 1'')
        (SrvCfg_StmtCfg (srv_cfg (srvs (snd (Env_OpenSrv demo_native 1
        (Some \<lparr>Dblink = runes ''orcl'', SrvCfg_StmtCfg = None\<rparr>) demo_world)) 100)))
       = Some ''prefetch 1''"
proof -
  let ?c = "\<lparr>Dblink = runes ''orcl'', SrvCfg_StmtCfg = None\<rparr>"
  have f: "fst (Env_OpenSrv demo_native 1 (Some ?c) demo_world) = Inr 100"
    by (simp add: OpenSrv_unfold demo_unfold)
  then have o: "Env_OpenSrv demo_native 1 (Some ?c) demo_world
     = (Inr 100, snd (Env_OpenSrv demo_native 1 (Some ?c) demo_world))"
    by (simp add: prod_eq_iff)
  have e: "EnvCfg_StmtCfg (env_cfg (envs demo_world 1)) = Some 5"
    by (simp add: demo_unfold)
  have n: "SrvCfg_StmtCfg ?c = None" by simp
  note t1 = OpenSrv_shares_default_StmtCfg [OF o n e, of "\<lambda>r. ''prefetch 128''" "''prefetch 1''"]
  from t1 have s: "SrvCfg_StmtCfg (srv_cfg (srvs (snd (Env_OpenSrv demo_native 1 (Some ?c) demo_world)) 100)) = Some 5"
    by blast
  from f e s show ?thesis
    by (simp add: read_StmtCfg_def write_StmtCfg_def)
qed

section \<open>Properties of \<^verbatim>\<open>Env.OpenCon\<close>\<close>
































section \<open>Properties of the parsing of the connection string\<close>























end
